theory Spec2Isabelle
  imports Main "HOL-Library.Word"
begin

section \<open>JavaScript values\<close>

text \<open>
  The handler of \<^verbatim>\<open>src/app/api/webhook/calendly/route.js\<close> works on values that come
  out of \<^verbatim>\<open>JSON.parse\<close> and out of the calendar client, so the model has one type of
  JavaScript values: the JSON values and \<^verbatim>\<open>undefined\<close>. An object is the list of its
  own properties. Numbers are only ever tested for truthiness and compared with \<^verbatim>\<open>404\<close>
  by this code, so they are modelled as integers. Strings are lists of characters. The
  methods of the runtime's strings that depend on Unicode, \<^verbatim>\<open>toLowerCase\<close> and \<^verbatim>\<open>trim\<close>,
  are parameters of the model: every property below holds for whatever they compute.
\<close>

datatype jsval =
    JUndefined
  | JNull
  | JBool bool
  | JNum int
  | JStr string
  | JArr "jsval list"
  | JObj "(string \<times> jsval) list"

text \<open>A thrown error object: the three properties the handler reads from it.\<close>

record js_error =
  code :: jsval
  message :: jsval
  errors :: jsval

definition TypeError :: "string \<Rightarrow> js_error" where
  "TypeError msg = \<lparr>code = JUndefined, message = JStr msg, errors = JUndefined\<rparr>"

definition RangeError :: "string \<Rightarrow> js_error" where
  "RangeError msg = \<lparr>code = JUndefined, message = JStr msg, errors = JUndefined\<rparr>"

definition Error :: "string \<Rightarrow> js_error" where
  "Error msg = \<lparr>code = JUndefined, message = JStr msg, errors = JUndefined\<rparr>"

definition bindE :: "'e + 'a \<Rightarrow> ('a \<Rightarrow> 'e + 'b) \<Rightarrow> 'e + 'b" where
  "bindE m f = (case m of Inl e \<Rightarrow> Inl e | Inr x \<Rightarrow> f x)"

fun truthy :: "jsval \<Rightarrow> bool" where
  "truthy JUndefined = False"
| "truthy JNull = False"
| "truthy (JBool b) = b"
| "truthy (JNum n) = (n \<noteq> 0)"
| "truthy (JStr s) = (s \<noteq> [])"
| "truthy (JArr xs) = True"
| "truthy (JObj kvs) = True"

text \<open>\<^verbatim>\<open>a || b\<close>\<close>

definition js_or :: "jsval \<Rightarrow> jsval \<Rightarrow> jsval" where
  "js_or a b = (if truthy a then a else b)"

fun nullish :: "jsval \<Rightarrow> bool" where
  "nullish JUndefined = True"
| "nullish JNull = True"
| "nullish v = False"

text \<open>
  \<^verbatim>\<open>v.k\<close>: a TypeError on \<^verbatim>\<open>undefined\<close> and \<^verbatim>\<open>null\<close>, the own property of an
  object, and \<^verbatim>\<open>undefined\<close> on a primitive or an array (none of the property names the
  handler reads is defined on their prototypes).
\<close>

fun get_prop :: "jsval \<Rightarrow> string \<Rightarrow> js_error + jsval" where
  "get_prop JUndefined k = Inl (TypeError (''Cannot read properties of undefined: '' @ k))"
| "get_prop JNull k = Inl (TypeError (''Cannot read properties of null: '' @ k))"
| "get_prop (JObj kvs) k = Inr (case map_of kvs k of None \<Rightarrow> JUndefined | Some v \<Rightarrow> v)"
| "get_prop v k = Inr JUndefined"

text \<open>\<^verbatim>\<open>v?.k\<close>\<close>

definition opt_prop :: "jsval \<Rightarrow> string \<Rightarrow> js_error + jsval" where
  "opt_prop v k = (if nullish v then Inr JUndefined else get_prop v k)"

text \<open>\<^verbatim>\<open>Object.keys(v)\<close>, of which the handler only logs the result.\<close>

fun Object_keys :: "jsval \<Rightarrow> js_error + string list" where
  "Object_keys JUndefined = Inl (TypeError ''Cannot convert undefined or null to object'')"
| "Object_keys JNull = Inl (TypeError ''Cannot convert undefined or null to object'')"
| "Object_keys (JObj kvs) = Inr (map fst kvs)"
| "Object_keys v = Inr []"

section \<open>Strings\<close>

text \<open>
  \<^verbatim>\<open>v?.toLowerCase()\<close>: only a string has the method; \<open>lc\<close> is what the runtime's
  \<^verbatim>\<open>String.prototype.toLowerCase\<close> computes.
\<close>

fun opt_toLowerCase :: "(string \<Rightarrow> string) \<Rightarrow> jsval \<Rightarrow> js_error + jsval" where
  "opt_toLowerCase lc JUndefined = Inr JUndefined"
| "opt_toLowerCase lc JNull = Inr JUndefined"
| "opt_toLowerCase lc (JStr s) = Inr (JStr (lc s))"
| "opt_toLowerCase lc v = Inl (TypeError ''toLowerCase is not a function'')"

definition startsWith :: "string \<Rightarrow> string \<Rightarrow> bool" where
  "startsWith s p = (take (length p) s = p)"

text \<open>\<^verbatim>\<open>s.split(sep)\<close> for a one-character separator.\<close>

fun js_split :: "char \<Rightarrow> string \<Rightarrow> string list" where
  "js_split sep [] = [[]]"
| "js_split sep (c # cs) =
     (if c = sep then [] # js_split sep cs
      else (case js_split sep cs of [] \<Rightarrow> [[c]] | p # ps \<Rightarrow> (c # p) # ps))"

section \<open>Hex encoding and the crypto module\<close>

type_synonym byte = "8 word"

definition hex_digit :: "nat \<Rightarrow> char" where
  "hex_digit n = ''0123456789abcdef'' ! n"

text \<open>\<^verbatim>\<open>.digest("hex")\<close>: two lower-case digits for each byte.\<close>

definition digest_hex :: "byte list \<Rightarrow> string" where
  "digest_hex bs = concat (map (\<lambda>b. [hex_digit (unat b div 16), hex_digit (unat b mod 16)]) bs)"

definition hex_value :: "char \<Rightarrow> nat option" where
  "hex_value c =
     (let n = (of_char c :: nat)
      in if 48 \<le> n \<and> n \<le> 57 then Some (n - 48)
         else if 97 \<le> n \<and> n \<le> 102 then Some (n - 87)
         else if 65 \<le> n \<and> n \<le> 70 then Some (n - 55)
         else None)"

text \<open>
  \<^verbatim>\<open>Buffer.from(s, "hex")\<close>: decodes pairs of hex digits and stops at the first pair
  that is not one; a last single character is dropped.
\<close>

fun Buffer_from_hex :: "string \<Rightarrow> byte list" where
  "Buffer_from_hex (a # b # rest) =
     (case (hex_value a, hex_value b) of
        (Some x, Some y) \<Rightarrow> of_nat (16 * x + y) # Buffer_from_hex rest
      | _ \<Rightarrow> [])"
| "Buffer_from_hex s = []"

text \<open>\<^verbatim>\<open>crypto.timingSafeEqual\<close> raises on buffers of different lengths.\<close>

definition timingSafeEqual :: "byte list \<Rightarrow> byte list \<Rightarrow> js_error + bool" where
  "timingSafeEqual a b =
     (if length a \<noteq> length b
      then Inl (RangeError ''Input buffers must have the same byte length'')
      else Inr (a = b))"

text \<open>
  HMAC-SHA256 itself belongs to the \<^verbatim>\<open>crypto\<close> module, not to this repository: it is a
  parameter, from the key and the message to the bytes of the MAC, and it may raise.
\<close>

type_synonym hmac = "string \<Rightarrow> string \<Rightarrow> js_error + byte list"

section \<open>verifyCalendlySignature\<close>

text \<open>The body of the \<^verbatim>\<open>try\<close> block, lines 61 to 91.\<close>

definition verify_try :: "hmac \<Rightarrow> string \<Rightarrow> string \<Rightarrow> string \<Rightarrow> js_error + bool" where
  "verify_try createHmac payload signatureHeader signingKey =
     (let parts = js_split CHR '','' signatureHeader;
          timestampPart = List.find (\<lambda>p. startsWith p ''t='') parts;
          signaturePart = List.find (\<lambda>p. startsWith p ''v1='') parts
      in case (timestampPart, signaturePart) of
           (Some tp, Some sp) \<Rightarrow>
             (let timestamp = drop 2 tp;
                  signature = drop 3 sp;
                  signedPayload = timestamp @ ''.'' @ payload
              in bindE (createHmac signingKey signedPayload) (\<lambda>mac.
                   let expectedSignature = digest_hex mac;
                       sigBuffer = Buffer_from_hex signature;
                       expectedBuffer = Buffer_from_hex expectedSignature
                   in if length sigBuffer \<noteq> length expectedBuffer then Inr False
                      else timingSafeEqual sigBuffer expectedBuffer))
         | _ \<Rightarrow> Inr False)"

text \<open>
  The header comes from \<^verbatim>\<open>request.headers.get\<close> (\<^verbatim>\<open>null\<close> when absent) and the key
  from the environment (\<^verbatim>\<open>undefined\<close> when unset): both are optional strings, and the
  empty string is falsy as well. The \<^verbatim>\<open>catch\<close> turns every error of the block into
  \<^verbatim>\<open>false\<close>.
\<close>

definition verifyCalendlySignature ::
  "hmac \<Rightarrow> string \<Rightarrow> string option \<Rightarrow> string option \<Rightarrow> js_error + bool" where
  "verifyCalendlySignature createHmac payload signatureHeader signingKey =
     (case (signatureHeader, signingKey) of
        (Some h, Some k) \<Rightarrow>
          (if h = [] \<or> k = [] then Inr False
           else (case verify_try createHmac payload h k of
                   Inl error \<Rightarrow> Inr False
                 | Inr b \<Rightarrow> Inr b))
      | _ \<Rightarrow> Inr False)"

section \<open>extractEventDetails\<close>

record EventDetails =
  hostEmail :: jsval
  inviteeEmail :: jsval
  externalId :: jsval
  calendarId :: jsval
  eventName :: jsval
  eventUri :: jsval
  startTime :: jsval
  endTime :: jsval
  rawScheduledEvent :: jsval

text \<open>
  \<^verbatim>\<open>eventMemberships.find((m) => m.user)\<close>: the first entry whose \<^verbatim>\<open>user\<close> is truthy,
  \<^verbatim>\<open>undefined\<close> when there is none; reading \<^verbatim>\<open>user\<close> of a \<^verbatim>\<open>null\<close> entry raises.
\<close>

fun find_user :: "jsval list \<Rightarrow> js_error + jsval" where
  "find_user [] = Inr JUndefined"
| "find_user (m # ms) =
     bindE (get_prop m ''user'') (\<lambda>u. if truthy u then Inr m else find_user ms)"

text \<open>Only an array has the method \<^verbatim>\<open>find\<close>.\<close>

fun find_membership :: "jsval \<Rightarrow> js_error + jsval" where
  "find_membership (JArr ms) = find_user ms"
| "find_membership v = Inl (TypeError ''eventMemberships.find is not a function'')"

text \<open>
  Lines 135 to 188, in the order of the source. The calls of \<^verbatim>\<open>console.log\<close> are left
  out, but not the \<^verbatim>\<open>Object.keys\<close> inside them, which can raise. \<open>lc\<close> is the
  runtime's \<^verbatim>\<open>toLowerCase\<close>.
\<close>

definition extractEventDetails :: "(string \<Rightarrow> string) \<Rightarrow> jsval \<Rightarrow> js_error + EventDetails" where
  "extractEventDetails lc payload =
     bindE (Object_keys payload) (\<lambda>ks.
     bindE (get_prop payload ''scheduled_event'') (\<lambda>se.
     let scheduledEvent = js_or se (JObj []) in
     bindE (Object_keys scheduledEvent) (\<lambda>ks'.
     bindE (get_prop scheduledEvent ''event_memberships'') (\<lambda>em.
     let eventMemberships = js_or em (JArr []) in
     bindE (get_prop payload ''invitee'') (\<lambda>inv.
     let invitees = js_or inv (JObj []) in
     bindE (find_membership eventMemberships) (\<lambda>hostMembership.
     bindE (opt_prop hostMembership ''user_email'') (\<lambda>ue.
     bindE (opt_toLowerCase lc ue) (\<lambda>hl.
     let hostEmail = js_or hl (JStr []) in
     bindE (get_prop invitees ''email'') (\<lambda>ie.
     bindE (opt_toLowerCase lc ie) (\<lambda>il.
     let inviteeEmail = js_or il (JStr []) in
     bindE (get_prop scheduledEvent ''external_id'') (\<lambda>eid.
     let externalId0 = js_or eid (JStr []) in
     bindE (get_prop scheduledEvent ''calendar_event'') (\<lambda>ce.
     bindE (if \<not> truthy externalId0 \<and> truthy ce
            then bindE (get_prop ce ''external_id'') (\<lambda>x. Inr (js_or x (JStr [])))
            else Inr externalId0) (\<lambda>externalId.
     bindE (get_prop scheduledEvent ''name'') (\<lambda>nm.
     bindE (get_prop scheduledEvent ''uri'') (\<lambda>uri.
     bindE (get_prop scheduledEvent ''start_time'') (\<lambda>st.
     bindE (get_prop scheduledEvent ''end_time'') (\<lambda>et.
     Inr \<lparr>hostEmail = hostEmail,
          inviteeEmail = inviteeEmail,
          externalId = externalId,
          calendarId = hostEmail,
          eventName = js_or nm (JStr ''Untitled Event''),
          eventUri = js_or uri (JStr []),
          startTime = st,
          endTime = et,
          rawScheduledEvent = scheduledEvent\<rparr>)))))))))))))))))"

section \<open>Configuration and the outside world\<close>

definition AUTHORIZED_HOSTS :: "string list" where
  "AUTHORIZED_HOSTS =
     [''christina@magicalteams.com'', ''cara@magicalteams.com'', ''mercedes@magicalteams.com'']"

definition SYNC_DELAY_MS :: nat where
  "SYNC_DELAY_MS = 5000"

text \<open>\<^verbatim>\<open>process.env\<close>: the three variables the handler reads, each one set or not.\<close>

record env =
  CALENDLY_WEBHOOK_SIGNING_KEY :: "string option"
  NOTETAKER_EMAIL_var :: "string option"
  GOOGLE_SERVICE_ACCOUNT_KEY :: "string option"

text \<open>\<^verbatim>\<open>process.env.NOTETAKER_EMAIL || "notetaker@magicalteams.com"\<close>\<close>

definition NOTETAKER_EMAIL :: "env \<Rightarrow> string" where
  "NOTETAKER_EMAIL e =
     (case NOTETAKER_EMAIL_var e of
        None \<Rightarrow> ''notetaker@magicalteams.com''
      | Some s \<Rightarrow> if s = [] then ''notetaker@magicalteams.com'' else s)"

text \<open>The request: its body as text and its \<^verbatim>\<open>Calendly-Webhook-Signature\<close> header.\<close>

record request =
  req_text :: string
  req_signature :: "string option"

record response =
  status :: jsval
  body :: jsval

text \<open>\<^verbatim>\<open>NextResponse.json(b)\<close> answers with status 200.\<close>

definition json :: "jsval \<Rightarrow> response" where
  "json b = \<lparr>status = JNum 200, body = b\<rparr>"

text \<open>
  What the handler calls and does not own: the HMAC of \<^verbatim>\<open>crypto\<close>, \<^verbatim>\<open>JSON.parse\<close>, the
  string methods \<^verbatim>\<open>toLowerCase\<close> and \<^verbatim>\<open>trim\<close>, what the framework's response constructor
  does with a status that is not a number, the two calendar calls (\<^verbatim>\<open>events.get\<close> gives
  \<^verbatim>\<open>response.data\<close>) and the two readings of the clock. Each call either returns or
  raises.
\<close>

record world =
  hmac_sha256 :: hmac
  JSON_parse :: "string \<Rightarrow> js_error + jsval"
  String_toLowerCase :: "string \<Rightarrow> string"
  String_trim :: "string \<Rightarrow> string"
  Response_init :: "jsval \<Rightarrow> jsval \<Rightarrow> js_error + response"
  events_get :: "jsval \<Rightarrow> jsval \<Rightarrow> js_error + jsval"
  events_patch :: "jsval \<Rightarrow> jsval \<Rightarrow> jsval list \<Rightarrow> js_error + unit"
  clock_start :: int
  clock_end :: int

text \<open>The effects of one run, in order: the delay and the outbound calendar calls.\<close>

datatype effect =
    Sleep nat
  | EventsGet jsval jsval
  | EventsPatch jsval jsval string "jsval list"

fun is_patch :: "effect \<Rightarrow> bool" where
  "is_patch (EventsPatch c e u as) = True"
| "is_patch x = False"

fun is_calendar_call :: "effect \<Rightarrow> bool" where
  "is_calendar_call (Sleep n) = False"
| "is_calendar_call x = True"

section \<open>Template literals\<close>

function dec_nat :: "nat \<Rightarrow> string" where
  "dec_nat n =
     (if n < 10 then [''0123456789'' ! n] else dec_nat (n div 10) @ [''0123456789'' ! (n mod 10)])"
  by pat_completeness auto
termination
  by (relation "measure id") auto

declare dec_nat.simps [simp del]

definition dec_int :: "int \<Rightarrow> string" where
  "dec_int i = (if i < 0 then CHR ''-'' # dec_nat (nat (- i)) else dec_nat (nat i))"

fun join_comma :: "string list \<Rightarrow> string" where
  "join_comma [] = []"
| "join_comma [x] = x"
| "join_comma (x # y # ys) = x @ '','' @ join_comma (y # ys)"

text \<open>\<^verbatim>\<open>${v}\<close>: the string of a value.\<close>

fun String_of :: "jsval \<Rightarrow> string" where
  "String_of JUndefined = ''undefined''"
| "String_of JNull = ''null''"
| "String_of (JBool b) = (if b then ''true'' else ''false'')"
| "String_of (JNum n) = dec_int n"
| "String_of (JStr s) = s"
| "String_of (JArr xs) = join_comma (map (\<lambda>x. if nullish x then [] else String_of x) xs)"
| "String_of (JObj kvs) = ''[object Object]''"

section \<open>getCalendarClient\<close>

text \<open>
  Lines 104 to 127. Building the auth object and the client makes no call; what can raise
  is the missing variable, \<^verbatim>\<open>JSON.parse\<close> and reading the two properties of the
  credentials.
\<close>

definition getCalendarClient :: "world \<Rightarrow> env \<Rightarrow> js_error + unit" where
  "getCalendarClient w e =
     (case GOOGLE_SERVICE_ACCOUNT_KEY e of
        None \<Rightarrow> Inl (Error ''GOOGLE_SERVICE_ACCOUNT_KEY environment variable is not set'')
      | Some serviceAccountKey \<Rightarrow>
          if serviceAccountKey = []
          then Inl (Error ''GOOGLE_SERVICE_ACCOUNT_KEY environment variable is not set'')
          else bindE (JSON_parse w serviceAccountKey) (\<lambda>credentials.
               bindE (get_prop credentials ''client_email'') (\<lambda>client_email.
               bindE (get_prop credentials ''private_key'') (\<lambda>private_key. Inr ()))))"

section \<open>POST\<close>

text \<open>Only an array has the methods \<^verbatim>\<open>some\<close> and \<^verbatim>\<open>map\<close>.\<close>

fun as_array :: "jsval \<Rightarrow> js_error + jsval list" where
  "as_array (JArr xs) = Inr xs"
| "as_array v = Inl (TypeError ''existingAttendees.some is not a function'')"

text \<open>\<^verbatim>\<open>a.email?.toLowerCase() === NOTETAKER_EMAIL.toLowerCase()\<close>\<close>

definition attendee_matches :: "(string \<Rightarrow> string) \<Rightarrow> string \<Rightarrow> jsval \<Rightarrow> js_error + bool" where
  "attendee_matches lc target a =
     bindE (get_prop a ''email'') (\<lambda>email.
     bindE (opt_toLowerCase lc email) (\<lambda>l. Inr (l = JStr (lc target))))"

text \<open>\<^verbatim>\<open>existingAttendees.some(...)\<close> stops at the first match.\<close>

fun notetakerExists :: "(string \<Rightarrow> string) \<Rightarrow> string \<Rightarrow> jsval list \<Rightarrow> js_error + bool" where
  "notetakerExists lc target [] = Inr False"
| "notetakerExists lc target (a # as) =
     bindE (attendee_matches lc target a)
       (\<lambda>b. if b then Inr True else notetakerExists lc target as)"

text \<open>\<^verbatim>\<open>xs.map((a) => a.email)\<close>\<close>

fun map_email :: "jsval list \<Rightarrow> js_error + jsval list" where
  "map_email [] = Inr []"
| "map_email (a # as) =
     bindE (get_prop a ''email'') (\<lambda>e. bindE (map_email as) (\<lambda>es. Inr (e # es)))"

definition updatedAttendees :: "string \<Rightarrow> jsval list \<Rightarrow> jsval list" where
  "updatedAttendees target existingAttendees =
     existingAttendees @
       [JObj [(''email'', JStr target), (''responseStatus'', JStr ''needsAction'')]]"

text \<open>Lines 328 to 384: from the fetched event to the response.\<close>

definition POST_update ::
  "world \<Rightarrow> env \<Rightarrow> EventDetails \<Rightarrow> jsval \<Rightarrow> (js_error + response) \<times> effect list" where
  "POST_update w e d existingEvent =
     (case bindE (get_prop existingEvent ''attendees'') (\<lambda>att.
           bindE (as_array (js_or att (JArr []))) (\<lambda>existingAttendees.
           bindE (notetakerExists (String_toLowerCase w) (NOTETAKER_EMAIL e) existingAttendees) (\<lambda>ex.
           Inr (existingAttendees, ex)))) of
        Inl error \<Rightarrow> (Inl error, [])
      | Inr (existingAttendees, True) \<Rightarrow>
          (bindE (map_email existingAttendees) (\<lambda>emails.
             Inr (json (JObj [(''message'', JStr ''Notetaker already exists as attendee''),
                              (''processed'', JBool False),
                              (''existingAttendees'', JArr emails)]))), [])
      | Inr (existingAttendees, False) \<Rightarrow>
          (let updated = updatedAttendees (NOTETAKER_EMAIL e) existingAttendees;
               call = EventsPatch (calendarId d) (externalId d) ''all'' updated
           in case events_patch w (calendarId d) (externalId d) updated of
                Inl error \<Rightarrow> (Inl error, [call])
              | Inr u \<Rightarrow>
                  (bindE (map_email updated) (\<lambda>emails.
                     Inr (json (JObj [(''success'', JBool True),
                                      (''message'', JStr ''Notetaker added successfully''),
                                      (''eventId'', externalId d),
                                      (''eventName'', eventName d),
                                      (''attendees'', JArr emails),
                                      (''processingTime'',
                                         JStr (dec_int (clock_end w - clock_start w) @ ''ms''))]))),
                   [call])))"

text \<open>Lines 290 to 326: the delay, the client, the fetch and its \<^verbatim>\<open>catch\<close>.\<close>

definition POST_fetch ::
  "world \<Rightarrow> env \<Rightarrow> EventDetails \<Rightarrow> (js_error + response) \<times> effect list" where
  "POST_fetch w e d =
     (case getCalendarClient w e of
        Inl error \<Rightarrow> (Inl error, [Sleep SYNC_DELAY_MS])
      | Inr calendar \<Rightarrow>
          (let call = EventsGet (calendarId d) (externalId d)
           in case events_get w (calendarId d) (externalId d) of
                Inl error \<Rightarrow>
                  if code error = JNum 404
                  then (Inr \<lparr>status = JNum 404,
                             body = JObj [(''error'', JStr
                                      ''Event not found in Google Calendar - may not have synced yet''),
                                    (''externalId'', externalId d)]\<rparr>,
                        [Sleep SYNC_DELAY_MS, call])
                  else (Inl error, [Sleep SYNC_DELAY_MS, call])
              | Inr existingEvent \<Rightarrow>
                  (case POST_update w e d existingEvent of
                     (r, effs) \<Rightarrow> (r, [Sleep SYNC_DELAY_MS, call] @ effs))))"

text \<open>Lines 244 to 288: the event type, the details, the host and the event id.\<close>

definition POST_event ::
  "world \<Rightarrow> env \<Rightarrow> jsval \<Rightarrow> (js_error + response) \<times> effect list" where
  "POST_event w e payload =
     (case get_prop payload ''event'' of
        Inl error \<Rightarrow> (Inl error, [])
      | Inr eventType \<Rightarrow>
          if eventType \<noteq> JStr ''invitee.created''
          then (Inr (json (JObj [(''message'',
                                   JStr (''Event type '' @ String_of eventType @ '' ignored'')),
                                 (''processed'', JBool False)])), [])
          else (case bindE (get_prop payload ''payload'')
                       (extractEventDetails (String_toLowerCase w)) of
                  Inl error \<Rightarrow> (Inl error, [])
                | Inr eventDetails \<Rightarrow>
                    if hostEmail eventDetails \<notin> set (map JStr AUTHORIZED_HOSTS)
                    then (Inr (json (JObj [(''message'', JStr ''Host not in authorized list''),
                                           (''processed'', JBool False),
                                           (''hostEmail'', hostEmail eventDetails)])), [])
                    else if \<not> truthy (externalId eventDetails)
                    then (Inr \<lparr>status = JNum 400,
                               body = JObj [(''error'', JStr ''Missing external_id in payload'')]\<rparr>,
                          [])
                    else POST_fetch w e eventDetails))"

text \<open>
  Lines 215 to 242: the key is trimmed; the signature is checked only when both a key and
  a header are there. \<open>None\<close> lets the request through, \<open>Some r\<close> answers it with \<open>r\<close>.
\<close>

definition POST_signature :: "world \<Rightarrow> env \<Rightarrow> request \<Rightarrow> js_error + response option" where
  "POST_signature w e req =
     (let signingKey = map_option (String_trim w) (CALENDLY_WEBHOOK_SIGNING_KEY e)
      in case signingKey of
           None \<Rightarrow> Inr None
         | Some k \<Rightarrow>
             if k = [] then Inr None
             else (case req_signature req of
                     None \<Rightarrow> Inr None
                   | Some h \<Rightarrow>
                       if h = [] then Inr None
                       else bindE (verifyCalendlySignature (hmac_sha256 w) (req_text req)
                                     (Some h) (Some k)) (\<lambda>isValid.
                              if \<not> isValid
                              then Inr (Some \<lparr>status = JNum 401,
                                              body = JObj [(''error'', JStr ''Invalid signature'')]\<rparr>)
                              else Inr None)))"

text \<open>The body of the outer \<^verbatim>\<open>try\<close>, lines 209 to 384.\<close>

definition POST_try :: "world \<Rightarrow> env \<Rightarrow> request \<Rightarrow> (js_error + response) \<times> effect list" where
  "POST_try w e req =
     (case JSON_parse w (req_text req) of
        Inl error \<Rightarrow> (Inl error, [])
      | Inr payload \<Rightarrow>
          (case POST_signature w e req of
             Inl error \<Rightarrow> (Inl error, [])
           | Inr (Some r) \<Rightarrow> (Inr r, [])
           | Inr None \<Rightarrow> POST_event w e payload))"

text \<open>
  \<^verbatim>\<open>NextResponse.json(b, {status})\<close>: the response constructor of the framework raises a
  RangeError on a status outside 200 to 599. A status that is not a number is first
  converted by the runtime; what comes of it is the parameter \<open>Response_init\<close>.
\<close>

definition NextResponse_json :: "world \<Rightarrow> jsval \<Rightarrow> jsval \<Rightarrow> js_error + response" where
  "NextResponse_json w b st =
     (case st of
        JNum n \<Rightarrow>
          if 200 \<le> n \<and> n \<le> 599 then Inr \<lparr>status = JNum n, body = b\<rparr>
          else Inl (RangeError ''init[status] must be in the range of 200 to 599, inclusive'')
      | _ \<Rightarrow> Response_init w b st)"

text \<open>
  The outer \<^verbatim>\<open>catch\<close>, lines 385 to 398: the status is \<^verbatim>\<open>error.code || 500\<close>, handed
  to \<^verbatim>\<open>NextResponse.json\<close> inside the \<^verbatim>\<open>catch\<close>, so an error of the constructor leaves the
  handler: \<open>Inl\<close> is an exception that escapes, \<open>Inr\<close> the response. The responses built
  with a literal status (200, 400, 401, 404) are in range and are written as they are.
\<close>

definition POST :: "world \<Rightarrow> env \<Rightarrow> request \<Rightarrow> (js_error + response) \<times> effect list" where
  "POST w e req =
     (case POST_try w e req of
        (Inl error, effs) \<Rightarrow>
          (NextResponse_json w
             (JObj [(''error'', JStr ''Failed to process webhook''),
                    (''message'', message error),
                    (''details'', js_or (errors error) JNull)])
             (js_or (code error) (JNum 500)), effs)
      | (Inr r, effs) \<Rightarrow> (Inr r, effs))"

section \<open>Reading a payload\<close>

text \<open>
  The words in which the properties of \<open>extractEventDetails\<close> are stated: a property read
  without raising (\<^verbatim>\<open>undefined\<close> where the read would raise), the parts of the payload
  the function looks at, and the payloads on which every read of the function is
  defined: not \<^verbatim>\<open>null\<close> or \<^verbatim>\<open>undefined\<close>, the memberships an array without
  \<^verbatim>\<open>null\<close> entries, the two emails strings or absent.
\<close>

definition read_prop :: "jsval \<Rightarrow> string \<Rightarrow> jsval" where
  "read_prop v k = (case get_prop v k of Inl e \<Rightarrow> JUndefined | Inr x \<Rightarrow> x)"

fun string_or_absent :: "jsval \<Rightarrow> bool" where
  "string_or_absent JUndefined = True"
| "string_or_absent JNull = True"
| "string_or_absent (JStr s) = True"
| "string_or_absent v = False"

fun lower_or_empty :: "(string \<Rightarrow> string) \<Rightarrow> jsval \<Rightarrow> jsval" where
  "lower_or_empty lc (JStr s) = JStr (lc s)"
| "lower_or_empty lc v = JStr []"

definition scheduled_event :: "jsval \<Rightarrow> jsval" where
  "scheduled_event payload = js_or (read_prop payload ''scheduled_event'') (JObj [])"

definition invitee :: "jsval \<Rightarrow> jsval" where
  "invitee payload = js_or (read_prop payload ''invitee'') (JObj [])"

definition memberships :: "jsval \<Rightarrow> jsval" where
  "memberships payload = js_or (read_prop (scheduled_event payload) ''event_memberships'') (JArr [])"

definition host_membership :: "jsval \<Rightarrow> jsval" where
  "host_membership payload =
     (case memberships payload of
        JArr ms \<Rightarrow> (case List.find (\<lambda>m. truthy (read_prop m ''user'')) ms of
                     None \<Rightarrow> JUndefined
                   | Some m \<Rightarrow> m)
      | _ \<Rightarrow> JUndefined)"

definition well_shaped :: "jsval \<Rightarrow> bool" where
  "well_shaped payload =
     (\<not> nullish payload
      \<and> (case memberships payload of JArr ms \<Rightarrow> list_all (\<lambda>m. \<not> nullish m) ms | _ \<Rightarrow> False)
      \<and> string_or_absent (read_prop (host_membership payload) ''user_email'')
      \<and> string_or_absent (read_prop (invitee payload) ''email''))"

definition external_id_of :: "jsval \<Rightarrow> jsval" where
  "external_id_of payload =
     (let se = scheduled_event payload; ce = read_prop se ''calendar_event''
      in if truthy (read_prop se ''external_id'') then read_prop se ''external_id''
         else if truthy ce then js_or (read_prop ce ''external_id'') (JStr [])
         else JStr [])"

section \<open>Reading a run\<close>

text \<open>
  The words in which the properties of \<open>POST\<close> are stated. A request reaches the fetch
  when its body parses, the signature step lets it through, it is an
  \<^verbatim>\<open>invitee.created\<close> notification, the details are extracted, the host is authorized,
  the event id is there and the calendar client is built. An attendee of the fetched
  event is typed when it is not \<^verbatim>\<open>null\<close> and its email is a string or absent; it has
  the target's email when the two are equal up to letter case.
\<close>

definition reaches_fetch :: "world \<Rightarrow> env \<Rightarrow> request \<Rightarrow> jsval \<Rightarrow> EventDetails \<Rightarrow> bool" where
  "reaches_fetch w e req payload d =
     (JSON_parse w (req_text req) = Inr payload
      \<and> POST_signature w e req = Inr None
      \<and> get_prop payload ''event'' = Inr (JStr ''invitee.created'')
      \<and> extractEventDetails (String_toLowerCase w) (read_prop payload ''payload'') = Inr d
      \<and> hostEmail d \<in> set (map JStr AUTHORIZED_HOSTS)
      \<and> truthy (externalId d)
      \<and> getCalendarClient w e = Inr ())"

definition attendees_of :: "jsval \<Rightarrow> jsval" where
  "attendees_of existingEvent = js_or (read_prop existingEvent ''attendees'') (JArr [])"

definition typed_attendee :: "jsval \<Rightarrow> bool" where
  "typed_attendee a = (\<not> nullish a \<and> string_or_absent (read_prop a ''email''))"

definition has_email :: "(string \<Rightarrow> string) \<Rightarrow> string \<Rightarrow> jsval \<Rightarrow> bool" where
  "has_email lc target a =
     (case read_prop a ''email'' of
        JStr s \<Rightarrow> lc s = lc target
      | _ \<Rightarrow> False)"

definition lacks_email :: "jsval \<Rightarrow> bool" where
  "lacks_email a = (case a of JObj kvs \<Rightarrow> map_of kvs ''email'' = None | _ \<Rightarrow> False)"

definition ci_member :: "(string \<Rightarrow> string) \<Rightarrow> jsval \<Rightarrow> string list \<Rightarrow> bool" where
  "ci_member lc v hs = (case v of JStr s \<Rightarrow> lc s \<in> set (map lc hs) | _ \<Rightarrow> False)"

definition signing_key_configured :: "world \<Rightarrow> env \<Rightarrow> bool" where
  "signing_key_configured w e =
     (case CALENDLY_WEBHOOK_SIGNING_KEY e of
        None \<Rightarrow> False
      | Some k \<Rightarrow> String_trim w k \<noteq> [])"



section \<open>Sample data\<close>

text \<open>
  Stand-ins for the two string methods: the lower case of the ASCII letters, and the
  trimming of the ASCII white space (the space and the characters 9 to 13).
\<close>

definition ascii_lower_char :: "char \<Rightarrow> char" where
  "ascii_lower_char c =
     (case map_of (zip ''ABCDEFGHIJKLMNOPQRSTUVWXYZ'' ''abcdefghijklmnopqrstuvwxyz'') c of
        None \<Rightarrow> c
      | Some l \<Rightarrow> l)"

definition ascii_toLowerCase :: "string \<Rightarrow> string" where
  "ascii_toLowerCase s = map ascii_lower_char s"

definition ascii_space :: "char \<Rightarrow> bool" where
  "ascii_space c = (let n = (of_char c :: nat) in n = 32 \<or> (9 \<le> n \<and> n \<le> 13))"

definition ascii_trim :: "string \<Rightarrow> string" where
  "ascii_trim s = rev (dropWhile ascii_space (rev (dropWhile ascii_space s)))"

text \<open>Two stand-ins for the HMAC of the crypto module: one returns, one raises.\<close>

definition sample_hmac :: hmac where
  "sample_hmac key msg = Inr [0xde, 0xad]"

definition failing_hmac :: hmac where
  "failing_hmac key msg = Inl (Error ''Invalid key length'')"

text \<open>Payloads of a notification, as \<^verbatim>\<open>JSON.parse\<close> gives them.\<close>

definition payload_calendar_event_id :: jsval where
  "payload_calendar_event_id =
     JObj [(''scheduled_event'',
            JObj [(''calendar_event'', JObj [(''external_id'', JStr ''gcal123'')])])]"

definition payload_top_level_id :: jsval where
  "payload_top_level_id = JObj [(''scheduled_event'', JObj [(''external_id'', JStr ''evt456'')])]"

definition payload_null_membership :: jsval where
  "payload_null_membership =
     JObj [(''scheduled_event'', JObj [(''event_memberships'', JArr [JNull])])]"

definition payload_booking :: jsval where
  "payload_booking =
     JObj [(''scheduled_event'',
            JObj [(''name'', JStr ''Intro call''),
                  (''event_memberships'',
                     JArr [JObj [(''user'', JStr ''https://api.calendly.com/users/U1''),
                                 (''user_email'', JStr ''Cara@MagicalTeams.com'')]]),
                  (''calendar_event'', JObj [(''kind'', JStr ''google''),
                                             (''external_id'', JStr ''gcal123'')])]),
           (''invitee'', JObj [(''email'', JStr ''Guest@Example.org'')])]"

text \<open>
  A run of the handler: a stand-in for \<^verbatim>\<open>JSON.parse\<close> that knows the texts of the sample
  requests and of the service account key, the ASCII string methods, a response
  constructor that refuses every status that is not a number, a calendar that answers the
  fetch and the patch as told, two notifications and three attendees.
\<close>

definition sample_event :: jsval where
  "sample_event = JObj [(''event'', JStr ''invitee.created''), (''payload'', payload_booking)]"

definition payload_stranger :: jsval where
  "payload_stranger =
     JObj [(''scheduled_event'',
            JObj [(''event_memberships'',
                     JArr [JObj [(''user'', JStr ''https://api.calendly.com/users/U9''),
                                 (''user_email'', JStr ''Stranger@Example.org'')]]),
                  (''calendar_event'', JObj [(''external_id'', JStr ''gcal999'')])])]"

definition sample_event_stranger :: jsval where
  "sample_event_stranger =
     JObj [(''event'', JStr ''invitee.created''), (''payload'', payload_stranger)]"

definition sample_credentials :: jsval where
  "sample_credentials =
     JObj [(''client_email'', JStr ''bot@project.iam.gserviceaccount.com''),
           (''private_key'', JStr ''PRIVATE KEY'')]"

definition sample_parse :: "string \<Rightarrow> js_error + jsval" where
  "sample_parse s =
     (if s = ''booking notification'' then Inr sample_event
      else if s = ''stranger notification'' then Inr sample_event_stranger
      else if s = ''service account key'' then Inr sample_credentials
      else Inl \<lparr>code = JUndefined, message = JStr ''Unexpected token'', errors = JUndefined\<rparr>)"

definition sample_world :: "(js_error + jsval) \<Rightarrow> (js_error + unit) \<Rightarrow> world" where
  "sample_world fetched patched =
     \<lparr>hmac_sha256 = sample_hmac,
      JSON_parse = sample_parse,
      String_toLowerCase = ascii_toLowerCase,
      String_trim = ascii_trim,
      Response_init = (\<lambda>b st. Inl (RangeError ''init[status] must be in the range of 200 to 599, inclusive'')),
      events_get = (\<lambda>calendarId eventId. fetched),
      events_patch = (\<lambda>calendarId eventId attendees. patched),
      clock_start = 1000,
      clock_end = 6200\<rparr>"

definition sample_env :: env where
  "sample_env =
     \<lparr>CALENDLY_WEBHOOK_SIGNING_KEY = Some ''secret'',
      NOTETAKER_EMAIL_var = None,
      GOOGLE_SERVICE_ACCOUNT_KEY = Some ''service account key''\<rparr>"

definition sample_request :: request where
  "sample_request =
     \<lparr>req_text = ''booking notification'', req_signature = Some ''t=1700000000,v1=dead''\<rparr>"

definition stranger_request :: request where
  "stranger_request =
     \<lparr>req_text = ''stranger notification'', req_signature = Some ''t=1700000000,v1=dead''\<rparr>"

definition sample_details :: EventDetails where
  "sample_details =
     \<lparr>hostEmail = JStr ''cara@magicalteams.com'',
      inviteeEmail = JStr ''guest@example.org'',
      externalId = JStr ''gcal123'',
      calendarId = JStr ''cara@magicalteams.com'',
      eventName = JStr ''Intro call'',
      eventUri = JStr [],
      startTime = JUndefined,
      endTime = JUndefined,
      rawScheduledEvent = read_prop payload_booking ''scheduled_event''\<rparr>"

definition guest_attendee :: jsval where
  "guest_attendee =
     JObj [(''email'', JStr ''guest@example.org''), (''responseStatus'', JStr ''accepted'')]"

definition room_attendee :: jsval where
  "room_attendee = JObj [(''displayName'', JStr ''Room 4''), (''resource'', JBool True)]"

definition notetaker_attendee :: jsval where
  "notetaker_attendee =
     JObj [(''email'', JStr ''Notetaker@MagicalTeams.com''),
           (''responseStatus'', JStr ''needsAction'')]"

definition snapshot_without :: jsval where
  "snapshot_without =
     JObj [(''id'', JStr ''gcal123''), (''attendees'', JArr [guest_attendee, room_attendee])]"

definition snapshot_with :: jsval where
  "snapshot_with =
     JObj [(''id'', JStr ''gcal123''),
           (''attendees'', JArr [guest_attendee, notetaker_attendee])]"

definition details_stranger :: EventDetails where
  "details_stranger =
     \<lparr>hostEmail = JStr ''stranger@example.org'',
      inviteeEmail = JStr [],
      externalId = JStr ''gcal999'',
      calendarId = JStr ''stranger@example.org'',
      eventName = JStr ''Untitled Event'',
      eventUri = JStr [],
      startTime = JUndefined,
      endTime = JUndefined,
      rawScheduledEvent = read_prop payload_stranger ''scheduled_event''\<rparr>"

definition env_without_key :: env where
  "env_without_key =
     \<lparr>CALENDLY_WEBHOOK_SIGNING_KEY = None,
      NOTETAKER_EMAIL_var = None,
      GOOGLE_SERVICE_ACCOUNT_KEY = Some ''service account key''\<rparr>"

definition env_blank_key :: env where
  "env_blank_key =
     \<lparr>CALENDLY_WEBHOOK_SIGNING_KEY = Some ''  '',
      NOTETAKER_EMAIL_var = None,
      GOOGLE_SERVICE_ACCOUNT_KEY = Some ''service account key''\<rparr>"



section \<open>Properties of the signature check\<close>

lemma js_split_no_sep: "sep \<notin> set s \<Longrightarrow> js_split sep s = [s]"
  by (induction s) auto

lemma js_split_append: "sep \<notin> set a \<Longrightarrow> js_split sep (a @ sep # b) = a # js_split sep b"
  by (induction a) auto

lemma hex_table: "map (\<lambda>n. hex_value (hex_digit n)) [0..<16] = map Some [0..<16]"
  by (simp add: upt_rec hex_value_def hex_digit_def)

lemma hex_value_hex_digit: "n < 16 \<Longrightarrow> hex_value (hex_digit n) = Some n"
proof -
  assume n: "n < 16"
  have "map (\<lambda>n. hex_value (hex_digit n)) [0..<16] ! n = map Some [0..<16] ! n"
    by (simp only: hex_table)
  with n show ?thesis by (simp del: upt_rec_numeral)
qed

lemma hex_digit_not_comma: "n < 16 \<Longrightarrow> CHR '','' \<noteq> hex_digit n"
proof -
  assume n: "n < 16"
  have "\<forall>c \<in> set ''0123456789abcdef''. CHR '','' \<noteq> c" by simp
  moreover have "hex_digit n \<in> set ''0123456789abcdef''"
    unfolding hex_digit_def using n by (intro nth_mem) simp
  ultimately show ?thesis by blast
qed

lemma unat_byte_div: "unat (b :: byte) div 16 < 16"
proof -
  have "unat b < 2 ^ 8" using unsigned_less [of b] by simp
  then show ?thesis by simp
qed

lemma Buffer_from_hex_digest: "Buffer_from_hex (digest_hex bs) = bs"
  by (induction bs) (simp_all add: digest_hex_def hex_value_hex_digit unat_byte_div)

lemma digest_hex_no_comma: "CHR '','' \<notin> set (digest_hex bs)"
  by (induction bs) (simp_all add: digest_hex_def hex_digit_not_comma unat_byte_div)

text \<open>
  C1: for a timestamp without a comma (a number of seconds has none), any raw payload and
  a non-empty signing key, \<open>verifyCalendlySignature\<close> returns \<open>true\<close> on the header
  \<^verbatim>\<open>t=<timestamp>,v1=<hex>\<close>, where \<^verbatim>\<open><hex>\<close> is the lower-case hex digest of the HMAC
  of \<^verbatim>\<open><timestamp>.<payload>\<close> under that key.
\<close>

theorem verify_accepts_signed_header:
  assumes "CHR '','' \<notin> set timestamp" and "signingKey \<noteq> []"
    and "createHmac signingKey (timestamp @ ''.'' @ payload) = Inr mac"
  shows "verifyCalendlySignature createHmac payload
           (Some (''t='' @ timestamp @ '',v1='' @ digest_hex mac)) (Some signingKey) = Inr True"
proof -
  let ?h = "''t='' @ timestamp @ '',v1='' @ digest_hex mac"
  have c: "CHR '','' \<notin> set (''t='' @ timestamp)" using assms(1) by simp
  have "?h = (''t='' @ timestamp) @ CHR '','' # (''v1='' @ digest_hex mac)" by simp
  then have "js_split CHR '','' ?h = (''t='' @ timestamp) # js_split CHR '','' (''v1='' @ digest_hex mac)"
    using js_split_append [OF c] by metis
  also have "js_split CHR '','' (''v1='' @ digest_hex mac) = [''v1='' @ digest_hex mac]"
    by (rule js_split_no_sep) (simp add: digest_hex_no_comma)
  finally have parts: "js_split CHR '','' ?h = [''t='' @ timestamp, ''v1='' @ digest_hex mac]" .
  have "verify_try createHmac payload ?h signingKey = Inr True"
    unfolding verify_try_def parts using assms(3)
    by (simp add: startsWith_def bindE_def Buffer_from_hex_digest timingSafeEqual_def)
  then show ?thesis
    using assms(2) by (simp add: verifyCalendlySignature_def)
qed

theorem verify_accepts_signed_header_witness:
  "CHR '','' \<notin> set ''1700000000'' \<and> ''secret'' \<noteq> []
   \<and> sample_hmac ''secret'' (''1700000000'' @ ''.'' @ ''{}'') = Inr [0xde, 0xad]
   \<and> verifyCalendlySignature sample_hmac ''{}'' (Some ''t=1700000000,v1=dead'') (Some ''secret'')
       = Inr True"
  using verify_accepts_signed_header [of "''1700000000''" "''secret''" sample_hmac "''{}''" "[0xde, 0xad]"]
  by (simp add: sample_hmac_def digest_hex_def hex_digit_def)

text \<open>
  C6: \<open>verifyCalendlySignature\<close> never raises. It returns \<open>false\<close> when the header lacks
  a \<^verbatim>\<open>t=\<close> part or a \<^verbatim>\<open>v1=\<close> part, when anything inside its \<^verbatim>\<open>try\<close> block raises
  (the HMAC for one), and when the provided signature and the expected one decode to
  different numbers of bytes.
\<close>

theorem verifyCalendlySignature_fails_closed:
  "(\<exists>b. verifyCalendlySignature createHmac payload hdr key = Inr b)
   \<and> (hdr = Some s
        \<and> \<not> ((\<exists>p \<in> set (js_split CHR '','' s). startsWith p ''t='')
              \<and> (\<exists>p \<in> set (js_split CHR '','' s). startsWith p ''v1=''))
      \<longrightarrow> verifyCalendlySignature createHmac payload hdr key = Inr False)
   \<and> (hdr = Some s \<and> key = Some k \<and> verify_try createHmac payload s k = Inl err
      \<longrightarrow> verifyCalendlySignature createHmac payload hdr key = Inr False)
   \<and> (hdr = Some s \<and> key = Some k
        \<and> List.find (\<lambda>p. startsWith p ''t='') (js_split CHR '','' s) = Some tp
        \<and> List.find (\<lambda>p. startsWith p ''v1='') (js_split CHR '','' s) = Some sp
        \<and> createHmac k (drop 2 tp @ ''.'' @ payload) = Inr mac
        \<and> length (Buffer_from_hex (drop 3 sp)) \<noteq> length mac
      \<longrightarrow> verifyCalendlySignature createHmac payload hdr key = Inr False)"
proof (intro conjI impI)
  show "\<exists>b. verifyCalendlySignature createHmac payload hdr key = Inr b"
    by (auto simp: verifyCalendlySignature_def split: option.splits sum.splits)
next
  assume a: "hdr = Some s \<and> \<not> ((\<exists>p \<in> set (js_split CHR '','' s). startsWith p ''t='')
              \<and> (\<exists>p \<in> set (js_split CHR '','' s). startsWith p ''v1=''))"
  then have "List.find (\<lambda>p. startsWith p ''t='') (js_split CHR '','' s) = None
           \<or> List.find (\<lambda>p. startsWith p ''v1='') (js_split CHR '','' s) = None"
    by (auto simp: find_None_iff)
  then have "verify_try createHmac payload s k' = Inr False" for k'
    by (auto simp: verify_try_def Let_def split: option.splits)
  with a show "verifyCalendlySignature createHmac payload hdr key = Inr False"
    by (simp add: verifyCalendlySignature_def split: option.splits)
next
  assume "hdr = Some s \<and> key = Some k \<and> verify_try createHmac payload s k = Inl err"
  then show "verifyCalendlySignature createHmac payload hdr key = Inr False"
    by (simp add: verifyCalendlySignature_def)
next
  assume a: "hdr = Some s \<and> key = Some k
        \<and> List.find (\<lambda>p. startsWith p ''t='') (js_split CHR '','' s) = Some tp
        \<and> List.find (\<lambda>p. startsWith p ''v1='') (js_split CHR '','' s) = Some sp
        \<and> createHmac k (drop 2 tp @ ''.'' @ payload) = Inr mac
        \<and> length (Buffer_from_hex (drop 3 sp)) \<noteq> length mac"
  then have "verify_try createHmac payload s k = Inr False"
    by (simp add: verify_try_def bindE_def Buffer_from_hex_digest)
  with a show "verifyCalendlySignature createHmac payload hdr key = Inr False"
    by (simp add: verifyCalendlySignature_def)
qed

theorem verifyCalendlySignature_fails_closed_witness:
  "verifyCalendlySignature sample_hmac ''{}'' (Some ''v1=dead'') (Some ''secret'') = Inr False
   \<and> verify_try failing_hmac ''{}'' ''t=1,v1=dead'' ''secret'' = Inl (Error ''Invalid key length'')
   \<and> verifyCalendlySignature failing_hmac ''{}'' (Some ''t=1,v1=dead'') (Some ''secret'') = Inr False
   \<and> length (Buffer_from_hex ''de'') \<noteq> length [0xde, 0xad :: byte]
   \<and> verifyCalendlySignature sample_hmac ''{}'' (Some ''t=1,v1=de'') (Some ''secret'') = Inr False"
proof -
  have 1: "verifyCalendlySignature sample_hmac ''{}'' (Some ''v1=dead'') (Some ''secret'') = Inr False"
    using verifyCalendlySignature_fails_closed
            [of sample_hmac "''{}''" "Some ''v1=dead''" "Some ''secret''" "''v1=dead''"]
    by (simp add: startsWith_def)
  have 2: "verify_try failing_hmac ''{}'' ''t=1,v1=dead'' ''secret'' = Inl (Error ''Invalid key length'')"
    by (simp add: verify_try_def startsWith_def failing_hmac_def bindE_def)
  have 3: "verifyCalendlySignature failing_hmac ''{}'' (Some ''t=1,v1=dead'') (Some ''secret'') = Inr False"
    using verifyCalendlySignature_fails_closed
            [of failing_hmac "''{}''" "Some ''t=1,v1=dead''" "Some ''secret''" "''t=1,v1=dead''"
                "''secret''" "Error ''Invalid key length''"] 2
    by simp
  have 4: "length (Buffer_from_hex ''de'') \<noteq> length [0xde, 0xad :: byte]"
    by (simp add: hex_value_def)
  have 5: "verifyCalendlySignature sample_hmac ''{}'' (Some ''t=1,v1=de'') (Some ''secret'') = Inr False"
    using verifyCalendlySignature_fails_closed
            [of sample_hmac "''{}''" "Some ''t=1,v1=de''" "Some ''secret''" "''t=1,v1=de''"
                "''secret''" _ "''t=1''" "''v1=de''" "[0xde, 0xad]"] 4
    by (simp add: startsWith_def sample_hmac_def)
  from 1 2 3 4 5 show ?thesis by blast
qed

section \<open>Properties of extractEventDetails\<close>

lemma get_prop_prop: "\<not> nullish v \<Longrightarrow> get_prop v k = Inr (read_prop v k)"
  by (cases v) (simp_all add: read_prop_def)

lemma bind_Object_keys: "\<not> nullish v \<Longrightarrow> bindE (Object_keys v) (\<lambda>ks. X) = X"
  by (cases v) (simp_all add: bindE_def)

lemma truthy_not_nullish: "truthy v \<Longrightarrow> \<not> nullish v"
  by (cases v) simp_all

lemma js_or_not_nullish: "\<not> nullish b \<Longrightarrow> \<not> nullish (js_or a b)"
  by (simp add: js_or_def truthy_not_nullish)

lemma find_user_find:
  "list_all (\<lambda>m. \<not> nullish m) ms \<Longrightarrow>
   find_user ms = Inr (case List.find (\<lambda>m. truthy (read_prop m ''user'')) ms of
                         None \<Rightarrow> JUndefined | Some m \<Rightarrow> m)"
  by (induction ms) (simp_all add: get_prop_prop bindE_def)

lemma find_membership_host:
  "memberships payload = JArr ms \<Longrightarrow> list_all (\<lambda>m. \<not> nullish m) ms \<Longrightarrow>
   find_membership (memberships payload) = Inr (host_membership payload)"
  by (simp add: find_user_find host_membership_def)

lemma opt_prop_prop: "opt_prop v k = Inr (read_prop v k)"
  by (cases v) (simp_all add: opt_prop_def read_prop_def TypeError_def)

lemma bindE_Inr: "bindE (Inr x) f = f x"
  by (simp add: bindE_def)

lemma bindE_Inl: "bindE (Inl e) f = Inl e"
  by (simp add: bindE_def)

lemma lower_email:
  "string_or_absent v \<Longrightarrow> \<exists>l. opt_toLowerCase lc v = Inr l \<and> js_or l (JStr []) = lower_or_empty lc v"
  by (cases v) (simp_all add: js_or_def)

lemma extract_well_shaped:
  assumes "well_shaped payload"
  shows "extractEventDetails lc payload =
           Inr \<lparr>hostEmail = lower_or_empty lc (read_prop (host_membership payload) ''user_email''),
                inviteeEmail = lower_or_empty lc (read_prop (invitee payload) ''email''),
                externalId = external_id_of payload,
                calendarId = lower_or_empty lc (read_prop (host_membership payload) ''user_email''),
                eventName = js_or (read_prop (scheduled_event payload) ''name'') (JStr ''Untitled Event''),
                eventUri = js_or (read_prop (scheduled_event payload) ''uri'') (JStr []),
                startTime = read_prop (scheduled_event payload) ''start_time'',
                endTime = read_prop (scheduled_event payload) ''end_time'',
                rawScheduledEvent = scheduled_event payload\<rparr>"
proof -
  let ?se = "js_or (read_prop payload ''scheduled_event'') (JObj [])"
  let ?inv = "js_or (read_prop payload ''invitee'') (JObj [])"
  from assms have p: "\<not> nullish payload"
    and h: "string_or_absent (read_prop (host_membership payload) ''user_email'')"
    and i: "string_or_absent (read_prop ?inv ''email'')"
    by (simp_all add: well_shaped_def invitee_def)
  from assms obtain ms where ms: "memberships payload = JArr ms"
    and all: "list_all (\<lambda>m. \<not> nullish m) ms"
    by (auto simp: well_shaped_def split: jsval.splits)
  have se: "\<not> nullish ?se" and inv: "\<not> nullish ?inv"
    by (simp_all add: js_or_not_nullish)
  have fm: "find_membership (js_or (read_prop ?se ''event_memberships'') (JArr []))
              = Inr (host_membership payload)"
    using find_membership_host [OF ms all] by (simp add: memberships_def scheduled_event_def)
  from lower_email [OF h] obtain hl
    where hl: "opt_toLowerCase lc (read_prop (host_membership payload) ''user_email'') = Inr hl"
      "js_or hl (JStr []) = lower_or_empty lc (read_prop (host_membership payload) ''user_email'')"
    by blast
  from lower_email [OF i] obtain il
    where il: "opt_toLowerCase lc (read_prop ?inv ''email'') = Inr il"
      "js_or il (JStr []) = lower_or_empty lc (read_prop ?inv ''email'')"
    by blast
  have ce: "truthy c \<Longrightarrow> get_prop c k = Inr (read_prop c k)" for c k
    by (simp add: get_prop_prop truthy_not_nullish)
  have ext: "bindE (if \<not> truthy (js_or (read_prop ?se ''external_id'') (JStr []))
                      \<and> truthy (read_prop ?se ''calendar_event'')
                   then bindE (get_prop (read_prop ?se ''calendar_event'') ''external_id'')
                          (\<lambda>x. Inr (js_or x (JStr [])))
                   else Inr (js_or (read_prop ?se ''external_id'') (JStr []))) F
             = F (external_id_of payload)" for F :: "jsval \<Rightarrow> js_error + EventDetails"
    by (auto simp: external_id_of_def scheduled_event_def Let_def js_or_def ce bindE_Inr)
  show ?thesis
    unfolding extractEventDetails_def Let_def
    by (simp only: bind_Object_keys [OF p] bind_Object_keys [OF se] get_prop_prop [OF p]
          get_prop_prop [OF se] get_prop_prop [OF inv] bindE_Inr fm opt_prop_prop hl il ext
          scheduled_event_def invitee_def)
qed

lemma well_shaped_payload_booking: "well_shaped payload_booking"
  by (simp add: well_shaped_def payload_booking_def memberships_def scheduled_event_def
      invitee_def host_membership_def read_prop_def js_or_def)

text \<open>
  C7, as the code has it: the event id is read at \<^verbatim>\<open>scheduled_event.external_id\<close> and,
  when that is absent (falsy), at \<^verbatim>\<open>scheduled_event.calendar_event.external_id\<close>; it is
  the empty string only when it is absent at both places. Stated for the payloads on
  which the function returns.
\<close>

theorem externalId_falls_back_to_calendar_event:
  assumes "well_shaped payload"
  shows "\<exists>d. extractEventDetails lc payload = Inr d
           \<and> (truthy (read_prop (scheduled_event payload) ''external_id'')
                \<longrightarrow> externalId d = read_prop (scheduled_event payload) ''external_id'')
           \<and> (\<not> truthy (read_prop (scheduled_event payload) ''external_id'')
                \<and> truthy (read_prop (scheduled_event payload) ''calendar_event'')
                \<longrightarrow> externalId d =
                      js_or (read_prop (read_prop (scheduled_event payload) ''calendar_event'')
                               ''external_id'') (JStr []))
           \<and> (\<not> truthy (read_prop (scheduled_event payload) ''external_id'')
                \<and> \<not> truthy (read_prop (scheduled_event payload) ''calendar_event'')
                \<longrightarrow> externalId d = JStr [])"
proof -
  obtain d where d: "extractEventDetails lc payload = Inr d"
    and ext: "externalId d = external_id_of payload"
    using extract_well_shaped [OF assms] by simp
  show ?thesis
  proof (cases "truthy (read_prop (scheduled_event payload) ''external_id'')")
    case True
    with d ext show ?thesis
      by (simp add: external_id_of_def Let_def)
  next
    case False
    with d ext show ?thesis
      by (cases "truthy (read_prop (scheduled_event payload) ''calendar_event'')")
        (simp_all add: external_id_of_def Let_def)
  qed
qed

theorem externalId_falls_back_to_calendar_event_witness:
  "well_shaped payload_booking
   \<and> (\<exists>d. extractEventDetails ascii_toLowerCase payload_booking = Inr d \<and> externalId d = JStr ''gcal123'')"
proof -
  have "read_prop (scheduled_event payload_booking) ''external_id'' = JUndefined"
    and "read_prop (scheduled_event payload_booking) ''calendar_event''
           = JObj [(''kind'', JStr ''google''), (''external_id'', JStr ''gcal123'')]"
    by (simp_all add: payload_booking_def scheduled_event_def read_prop_def js_or_def)
  then show ?thesis
    using externalId_falls_back_to_calendar_event [OF well_shaped_payload_booking, of ascii_toLowerCase]
      well_shaped_payload_booking
    by (auto simp: read_prop_def js_or_def)
qed

text \<open>
  Read with one path only, the property fails whichever of the two paths is taken for it:
  with the id at \<^verbatim>\<open>calendar_event.external_id\<close> only and with the id at
  \<^verbatim>\<open>scheduled_event.external_id\<close> only, the function returns it.
\<close>

theorem externalId_alternate_path_counterexample:
  "read_prop (scheduled_event payload_calendar_event_id) ''external_id'' = JUndefined
   \<and> extractEventDetails ascii_toLowerCase payload_calendar_event_id =
       Inr \<lparr>hostEmail = JStr [], inviteeEmail = JStr [], externalId = JStr ''gcal123'',
            calendarId = JStr [], eventName = JStr ''Untitled Event'', eventUri = JStr [],
            startTime = JUndefined, endTime = JUndefined,
            rawScheduledEvent =
              JObj [(''calendar_event'', JObj [(''external_id'', JStr ''gcal123'')])]\<rparr>
   \<and> read_prop (read_prop (scheduled_event payload_top_level_id) ''calendar_event'')
         ''external_id'' = JUndefined
   \<and> extractEventDetails ascii_toLowerCase payload_top_level_id =
       Inr \<lparr>hostEmail = JStr [], inviteeEmail = JStr [], externalId = JStr ''evt456'',
            calendarId = JStr [], eventName = JStr ''Untitled Event'', eventUri = JStr [],
            startTime = JUndefined, endTime = JUndefined,
            rawScheduledEvent = JObj [(''external_id'', JStr ''evt456'')]\<rparr>"
  by (simp add: payload_calendar_event_id_def payload_top_level_id_def scheduled_event_def
      read_prop_def js_or_def extractEventDetails_def bindE_def opt_prop_def Let_def)

text \<open>
  C8, as the code has it: on a payload that is not \<^verbatim>\<open>null\<close> or \<^verbatim>\<open>undefined\<close>, whose
  memberships are an array without \<^verbatim>\<open>null\<close> entries and whose two emails are strings or
  absent, \<open>extractEventDetails\<close> returns. The host and invitee emails are the strings of
  the payload as the runtime's \<^verbatim>\<open>toLowerCase\<close> lowers them, the empty string when absent;
  the calendar id is the host email;
  the event id and the URI default to the empty string, the name to
  \<^verbatim>\<open>Untitled Event\<close>, and the two times are passed on as they are (\<^verbatim>\<open>undefined\<close> when
  absent).
\<close>

theorem extractEventDetails_defaults:
  assumes "well_shaped payload"
  shows "\<exists>d. extractEventDetails lc payload = Inr d
           \<and> hostEmail d = lower_or_empty lc (read_prop (host_membership payload) ''user_email'')
           \<and> inviteeEmail d = lower_or_empty lc (read_prop (invitee payload) ''email'')
           \<and> calendarId d = hostEmail d
           \<and> (\<not> truthy (read_prop (scheduled_event payload) ''external_id'')
                \<and> \<not> truthy (read_prop (scheduled_event payload) ''calendar_event'')
                \<longrightarrow> externalId d = JStr [])
           \<and> eventName d = js_or (read_prop (scheduled_event payload) ''name'')
                              (JStr ''Untitled Event'')
           \<and> eventUri d = js_or (read_prop (scheduled_event payload) ''uri'') (JStr [])
           \<and> startTime d = read_prop (scheduled_event payload) ''start_time''
           \<and> endTime d = read_prop (scheduled_event payload) ''end_time''"
proof -
  obtain d where d: "extractEventDetails lc payload = Inr d"
    and fields: "hostEmail d = lower_or_empty lc (read_prop (host_membership payload) ''user_email'')"
      "inviteeEmail d = lower_or_empty lc (read_prop (invitee payload) ''email'')"
      "calendarId d = hostEmail d"
      "externalId d = external_id_of payload"
      "eventName d = js_or (read_prop (scheduled_event payload) ''name'') (JStr ''Untitled Event'')"
      "eventUri d = js_or (read_prop (scheduled_event payload) ''uri'') (JStr [])"
      "startTime d = read_prop (scheduled_event payload) ''start_time''"
      "endTime d = read_prop (scheduled_event payload) ''end_time''"
    using extract_well_shaped [OF assms, of lc] by simp
  have "\<not> truthy (read_prop (scheduled_event payload) ''external_id'')
        \<and> \<not> truthy (read_prop (scheduled_event payload) ''calendar_event'')
        \<longrightarrow> externalId d = JStr []"
    by (simp add: fields(4) external_id_of_def Let_def)
  with d fields show ?thesis by blast
qed

theorem extractEventDetails_defaults_witness:
  "well_shaped payload_booking
   \<and> (\<exists>d. extractEventDetails ascii_toLowerCase payload_booking = Inr d
          \<and> hostEmail d = JStr ''cara@magicalteams.com''
          \<and> inviteeEmail d = JStr ''guest@example.org''
          \<and> calendarId d = JStr ''cara@magicalteams.com''
          \<and> eventName d = JStr ''Intro call''
          \<and> eventUri d = JStr []
          \<and> startTime d = JUndefined)"
proof -
  have "lower_or_empty ascii_toLowerCase (read_prop (host_membership payload_booking) ''user_email'')
          = JStr ''cara@magicalteams.com''"
    and "lower_or_empty ascii_toLowerCase (read_prop (invitee payload_booking) ''email'') = JStr ''guest@example.org''"
    and "js_or (read_prop (scheduled_event payload_booking) ''name'') (JStr ''Untitled Event'')
          = JStr ''Intro call''"
    and "js_or (read_prop (scheduled_event payload_booking) ''uri'') (JStr []) = JStr []"
    and "read_prop (scheduled_event payload_booking) ''start_time'' = JUndefined"
    by (simp_all add: payload_booking_def memberships_def scheduled_event_def invitee_def
        host_membership_def read_prop_def js_or_def ascii_toLowerCase_def ascii_lower_char_def)
  then show ?thesis
    using extractEventDetails_defaults [OF well_shaped_payload_booking, of ascii_toLowerCase]
      well_shaped_payload_booking
    by auto
qed

text \<open>
  Stated for every payload and with empty defaults, the property fails twice: a \<^verbatim>\<open>null\<close> entry in the memberships makes the
  function raise, and the name of an event without one is \<^verbatim>\<open>Untitled Event\<close>, which is
  neither empty nor absent.
\<close>

theorem extractEventDetails_raises_counterexample:
  "extractEventDetails ascii_toLowerCase payload_null_membership
     = Inl (TypeError ''Cannot read properties of null: user'')
   \<and> extractEventDetails ascii_toLowerCase (JObj []) =
       Inr \<lparr>hostEmail = JStr [], inviteeEmail = JStr [], externalId = JStr [],
            calendarId = JStr [], eventName = JStr ''Untitled Event'', eventUri = JStr [],
            startTime = JUndefined, endTime = JUndefined, rawScheduledEvent = JObj []\<rparr>"
  by (simp add: payload_null_membership_def js_or_def extractEventDetails_def bindE_def
      opt_prop_def Let_def)

section \<open>Properties of POST\<close>

lemma sample_get:
  "events_get (sample_world g p) c i = g" "events_patch (sample_world g p) c i l = p"
  "String_toLowerCase (sample_world g p) = ascii_toLowerCase"
  "String_trim (sample_world g p) = ascii_trim"
  by (simp_all add: sample_world_def)

lemma extract_payload_booking: "extractEventDetails ascii_toLowerCase payload_booking = Inr sample_details"
  by (simp add: extract_well_shaped [OF well_shaped_payload_booking] sample_details_def)
    (simp add: payload_booking_def memberships_def scheduled_event_def invitee_def
      host_membership_def read_prop_def js_or_def ascii_toLowerCase_def ascii_lower_char_def
      external_id_of_def)

lemma sample_signature: "POST_signature (sample_world g p) sample_env sample_request = Inr None"
  by (simp add: POST_signature_def sample_world_def sample_env_def sample_request_def
      ascii_trim_def ascii_space_def verifyCalendlySignature_def verify_try_def startsWith_def
      sample_hmac_def bindE_def digest_hex_def hex_digit_def hex_value_def timingSafeEqual_def)

lemma sample_reaches_fetch:
  "reaches_fetch (sample_world g p) sample_env sample_request sample_event sample_details"
  unfolding reaches_fetch_def
  apply (intro conjI)
        apply (simp add: sample_world_def sample_request_def sample_parse_def)
       apply (rule sample_signature)
      apply (simp add: sample_event_def)
     apply (simp add: sample_event_def read_prop_def extract_payload_booking sample_get)
    apply (simp add: sample_details_def AUTHORIZED_HOSTS_def)
   apply (simp add: sample_details_def)
  apply (simp add: getCalendarClient_def sample_world_def sample_env_def sample_parse_def
      sample_credentials_def bindE_def)
  done

lemma get_prop_Inr_not_nullish: "get_prop v k = Inr x \<Longrightarrow> \<not> nullish v"
  by (cases v) simp_all

lemma POST_try_reaches_fetch:
  assumes "reaches_fetch w e req payload d"
  shows "POST_try w e req = POST_fetch w e d"
proof -
  from assms have ev: "get_prop payload ''event'' = Inr (JStr ''invitee.created'')"
    by (simp add: reaches_fetch_def)
  then have "get_prop payload ''payload'' = Inr (read_prop payload ''payload'')"
    by (intro get_prop_prop get_prop_Inr_not_nullish)
  with assms show ?thesis
    by (simp add: reaches_fetch_def POST_try_def POST_event_def bindE_Inr)
qed

lemma POST_fetch_got:
  assumes "getCalendarClient w e = Inr ()"
    and "events_get w (calendarId d) (externalId d) = Inr existingEvent"
  shows "POST_fetch w e d =
           (fst (POST_update w e d existingEvent),
            [Sleep SYNC_DELAY_MS, EventsGet (calendarId d) (externalId d)]
              @ snd (POST_update w e d existingEvent))"
  using assms by (simp add: POST_fetch_def split: prod.splits)


lemma attendee_matches_typed:
  "typed_attendee a \<Longrightarrow> attendee_matches lc t a = Inr (has_email lc t a)"
  by (cases "read_prop a ''email''")
    (simp_all add: typed_attendee_def attendee_matches_def get_prop_prop bindE_Inr has_email_def)

lemma notetakerExists_typed:
  "list_all typed_attendee as \<Longrightarrow> notetakerExists lc t as = Inr (list_ex (has_email lc t) as)"
  by (induction as) (simp_all add: attendee_matches_typed bindE_Inr)

lemma map_email_typed:
  "list_all typed_attendee as \<Longrightarrow> map_email as = Inr (map (\<lambda>a. read_prop a ''email'') as)"
  by (induction as) (simp_all add: typed_attendee_def get_prop_prop bindE_Inr)

lemma POST_update_decision:
  assumes "\<not> nullish existingEvent" and "attendees_of existingEvent = JArr as"
    and "list_all typed_attendee as"
  shows "bindE (get_prop existingEvent ''attendees'') (\<lambda>att.
           bindE (as_array (js_or att (JArr []))) (\<lambda>existingAttendees.
           bindE (notetakerExists lc t existingAttendees) (\<lambda>ex.
           Inr (existingAttendees, ex))))
         = Inr (as, list_ex (has_email lc t) as)"
  using assms
  by (simp add: get_prop_prop bindE_Inr attendees_of_def notetakerExists_typed)

lemma POST_update_present:
  assumes "\<not> nullish existingEvent" and "attendees_of existingEvent = JArr as"
    and "list_all typed_attendee as" and "list_ex (has_email (String_toLowerCase w) (NOTETAKER_EMAIL e)) as"
  shows "POST_update w e d existingEvent =
           (Inr (json (JObj [(''message'', JStr ''Notetaker already exists as attendee''),
                             (''processed'', JBool False),
                             (''existingAttendees'', JArr (map (\<lambda>a. read_prop a ''email'') as))])),
            [])"
  unfolding POST_update_def POST_update_decision [OF assms(1,2,3)]
  using assms(3,4) by (simp add: map_email_typed bindE_Inr)

lemma POST_update_absent:
  assumes "\<not> nullish existingEvent" and "attendees_of existingEvent = JArr as"
    and "list_all typed_attendee as" and "\<not> list_ex (has_email (String_toLowerCase w) (NOTETAKER_EMAIL e)) as"
  shows "snd (POST_update w e d existingEvent) =
           [EventsPatch (calendarId d) (externalId d) ''all''
              (updatedAttendees (NOTETAKER_EMAIL e) as)]"
    and "events_patch w (calendarId d) (externalId d) (updatedAttendees (NOTETAKER_EMAIL e) as)
           = Inl error \<Longrightarrow> fst (POST_update w e d existingEvent) = Inl error"
  unfolding POST_update_def POST_update_decision [OF assms(1,2,3)]
  using assms(4) by (simp_all add: Let_def split: sum.splits)

lemma ci_member_authorized:
  "hostEmail d \<in> set (map JStr AUTHORIZED_HOSTS) \<Longrightarrow> ci_member (String_toLowerCase w) (hostEmail d) AUTHORIZED_HOSTS"
  by (auto simp: ci_member_def)

lemma notetakerExists_skip:
  "attendee_matches lc t a = Inr False \<Longrightarrow>
   notetakerExists lc t (pre @ a # post) = notetakerExists lc t (pre @ post)"
  by (induction pre) (simp_all add: bindE_def split: sum.splits)

lemma POST_update_patches:
  assumes "EventsPatch c i u l \<in> set (snd (POST_update w e d existingEvent))"
    and "attendees_of existingEvent = JArr as"
  shows "l = updatedAttendees (NOTETAKER_EMAIL e) as"
proof (cases "nullish existingEvent")
  case True
  then have "snd (POST_update w e d existingEvent) = []"
    by (cases existingEvent) (simp_all add: POST_update_def bindE_Inl)
  with assms(1) show ?thesis by simp
next
  case False
  then have "get_prop existingEvent ''attendees'' = Inr (read_prop existingEvent ''attendees'')"
    by (rule get_prop_prop)
  with assms show ?thesis
    by (auto simp: POST_update_def bindE_Inr attendees_of_def Let_def bindE_def
        split: sum.splits bool.splits prod.splits if_splits)
qed

lemma lacks_email_no_match: "lacks_email a \<Longrightarrow> attendee_matches lc t a = Inr False"
  by (cases a) (simp_all add: lacks_email_def attendee_matches_def bindE_Inr)

lemma POST_effects_fetched:
  assumes "reaches_fetch w e req payload d"
    and "events_get w (calendarId d) (externalId d) = Inr existingEvent"
  shows "snd (POST w e req) =
           [Sleep SYNC_DELAY_MS, EventsGet (calendarId d) (externalId d)]
             @ snd (POST_update w e d existingEvent)"
proof -
  from assms(1) have client: "getCalendarClient w e = Inr ()"
    by (simp add: reaches_fetch_def)
  have "POST_try w e req = POST_fetch w e d"
    using assms(1) by (rule POST_try_reaches_fetch)
  also note POST_fetch_got [OF client assms(2)]
  finally have "snd (POST_try w e req) =
      [Sleep SYNC_DELAY_MS, EventsGet (calendarId d) (externalId d)]
        @ snd (POST_update w e d existingEvent)"
    by simp
  moreover have "snd (POST w e req) = snd (POST_try w e req)"
    by (simp add: POST_def split: prod.splits sum.splits)
  ultimately show ?thesis by simp
qed

lemma sample_attendees:
  "\<not> nullish snapshot_without"
  "attendees_of snapshot_without = JArr [guest_attendee, room_attendee]"
  "list_all typed_attendee [guest_attendee, room_attendee]"
  "\<not> list_ex (has_email (String_toLowerCase (sample_world g p)) (NOTETAKER_EMAIL sample_env)) [guest_attendee, room_attendee]"
  "\<not> nullish snapshot_with"
  "attendees_of snapshot_with = JArr [guest_attendee, notetaker_attendee]"
  "list_all typed_attendee [guest_attendee, notetaker_attendee]"
  "list_ex (has_email (String_toLowerCase (sample_world g p)) (NOTETAKER_EMAIL sample_env)) [guest_attendee, notetaker_attendee]"
  by (simp_all add: snapshot_without_def snapshot_with_def attendees_of_def read_prop_def
      js_or_def typed_attendee_def guest_attendee_def room_attendee_def notetaker_attendee_def
      has_email_def sample_get NOTETAKER_EMAIL_def sample_env_def ascii_toLowerCase_def ascii_lower_char_def)

lemma sample_constants:
  "calendarId sample_details = JStr ''cara@magicalteams.com''"
  "externalId sample_details = JStr ''gcal123''"
  "NOTETAKER_EMAIL sample_env = ''notetaker@magicalteams.com''"
  "SYNC_DELAY_MS = 5000"
  by (simp_all add: sample_details_def NOTETAKER_EMAIL_def sample_env_def SYNC_DELAY_MS_def)

lemma sample_effects_without:
  "snd (POST (sample_world (Inr snapshot_without) p) sample_env sample_request) =
     [Sleep 5000,
      EventsGet (JStr ''cara@magicalteams.com'') (JStr ''gcal123''),
      EventsPatch (JStr ''cara@magicalteams.com'') (JStr ''gcal123'') ''all''
        [guest_attendee, room_attendee,
         JObj [(''email'', JStr ''notetaker@magicalteams.com''),
               (''responseStatus'', JStr ''needsAction'')]]]"
  using POST_effects_fetched [OF sample_reaches_fetch, of "Inr snapshot_without" p snapshot_without]
    POST_update_absent(1) [OF sample_attendees(1,2,3)
      sample_attendees(4) [of "Inr snapshot_without" p], where d = sample_details]
  by (simp add: sample_get sample_constants updatedAttendees_def)



lemma extract_payload_stranger: "extractEventDetails ascii_toLowerCase payload_stranger = Inr details_stranger"
  by (simp add: payload_stranger_def details_stranger_def extractEventDetails_def bindE_def
      opt_prop_def js_or_def Let_def read_prop_def ascii_toLowerCase_def ascii_lower_char_def)

lemma stranger_signature:
  "POST_signature (sample_world g p) sample_env stranger_request = Inr None"
  by (simp add: POST_signature_def sample_world_def sample_env_def stranger_request_def
      ascii_trim_def ascii_space_def verifyCalendlySignature_def verify_try_def startsWith_def
      sample_hmac_def bindE_def digest_hex_def hex_digit_def hex_value_def timingSafeEqual_def)

text \<open>
  C2: when the attendees of the fetched event already hold the notetaker's address, in
  any letter case, the handler issues no patch: its only effects are the delay and the
  fetch, and it answers with status 200 and the body
  \<^verbatim>\<open>{message, processed: false, existingAttendees}\<close>.
\<close>

theorem notetaker_present_no_patch:
  assumes "reaches_fetch w e req payload d"
    and "events_get w (calendarId d) (externalId d) = Inr existingEvent"
    and "\<not> nullish existingEvent"
    and "attendees_of existingEvent = JArr as"
    and "list_all typed_attendee as"
    and "list_ex (has_email (String_toLowerCase w) (NOTETAKER_EMAIL e)) as"
  shows "POST w e req =
           (Inr \<lparr>status = JNum 200,
             body = JObj [(''message'', JStr ''Notetaker already exists as attendee''),
                          (''processed'', JBool False),
                          (''existingAttendees'', JArr (map (\<lambda>a. read_prop a ''email'') as))]\<rparr>,
            [Sleep SYNC_DELAY_MS, EventsGet (calendarId d) (externalId d)])
         \<and> filter is_patch (snd (POST w e req)) = []"
proof -
  from assms(1) have client: "getCalendarClient w e = Inr ()"
    by (simp add: reaches_fetch_def)
  have "POST_try w e req = POST_fetch w e d"
    using assms(1) by (rule POST_try_reaches_fetch)
  also note POST_fetch_got [OF client assms(2)]
  finally show ?thesis
    by (simp add: POST_def POST_update_present [OF assms(3,4,5,6)] json_def)
qed

theorem notetaker_present_no_patch_witness:
  "reaches_fetch (sample_world (Inr snapshot_with) (Inr ())) sample_env sample_request
     sample_event sample_details
   \<and> events_get (sample_world (Inr snapshot_with) (Inr ())) (calendarId sample_details)
        (externalId sample_details) = Inr snapshot_with
   \<and> \<not> nullish snapshot_with
   \<and> attendees_of snapshot_with = JArr [guest_attendee, notetaker_attendee]
   \<and> list_all typed_attendee [guest_attendee, notetaker_attendee]
   \<and> list_ex (has_email ascii_toLowerCase (NOTETAKER_EMAIL sample_env)) [guest_attendee, notetaker_attendee]
   \<and> POST (sample_world (Inr snapshot_with) (Inr ())) sample_env sample_request =
       (Inr \<lparr>status = JNum 200,
         body = JObj [(''message'', JStr ''Notetaker already exists as attendee''),
                      (''processed'', JBool False),
                      (''existingAttendees'',
                         JArr [JStr ''guest@example.org'', JStr ''Notetaker@MagicalTeams.com''])]\<rparr>,
        [Sleep 5000, EventsGet (JStr ''cara@magicalteams.com'') (JStr ''gcal123'')])"
proof -
  have g: "events_get (sample_world (Inr snapshot_with) (Inr ())) (calendarId sample_details)
        (externalId sample_details) = Inr snapshot_with"
    by (simp add: sample_get)
  have m: "read_prop guest_attendee ''email'' = JStr ''guest@example.org''"
    "read_prop notetaker_attendee ''email'' = JStr ''Notetaker@MagicalTeams.com''"
    by (simp_all add: read_prop_def guest_attendee_def notetaker_attendee_def)
  show ?thesis
    using notetaker_present_no_patch [OF sample_reaches_fetch g sample_attendees(5,6,7,8)]
      sample_reaches_fetch [of "Inr snapshot_with" "Inr ()"] g sample_attendees(5,6,7,8)
    by (simp add: m sample_constants sample_get(3))
qed

text \<open>
  C3, as the code has it: when no attendee of the fetched event has the notetaker's
  address, the handler issues exactly one patch, after the delay and the fetch; its
  attendee list is the fetched list, in its order and with nothing removed, followed by
  the one entry \<^verbatim>\<open>{email: target, responseStatus: "needsAction"}\<close>.
\<close>

theorem notetaker_absent_one_patch:
  assumes "reaches_fetch w e req payload d"
    and "events_get w (calendarId d) (externalId d) = Inr existingEvent"
    and "\<not> nullish existingEvent"
    and "attendees_of existingEvent = JArr as"
    and "list_all typed_attendee as"
    and "\<not> list_ex (has_email (String_toLowerCase w) (NOTETAKER_EMAIL e)) as"
  shows "snd (POST w e req) =
           [Sleep SYNC_DELAY_MS,
            EventsGet (calendarId d) (externalId d),
            EventsPatch (calendarId d) (externalId d) ''all''
              (as @ [JObj [(''email'', JStr (NOTETAKER_EMAIL e)),
                           (''responseStatus'', JStr ''needsAction'')]])]"
proof -
  from assms(1) have client: "getCalendarClient w e = Inr ()"
    by (simp add: reaches_fetch_def)
  have "POST_try w e req = POST_fetch w e d"
    using assms(1) by (rule POST_try_reaches_fetch)
  also note POST_fetch_got [OF client assms(2)]
  finally have "snd (POST_try w e req) =
      [Sleep SYNC_DELAY_MS, EventsGet (calendarId d) (externalId d)]
        @ snd (POST_update w e d existingEvent)"
    by simp
  moreover have "snd (POST w e req) = snd (POST_try w e req)"
    by (simp add: POST_def split: prod.splits sum.splits)
  ultimately show ?thesis
    by (simp add: POST_update_absent(1) [OF assms(3,4,5,6)] updatedAttendees_def)
qed

theorem notetaker_absent_one_patch_witness:
  "reaches_fetch (sample_world (Inr snapshot_without) (Inr ())) sample_env sample_request
     sample_event sample_details
   \<and> events_get (sample_world (Inr snapshot_without) (Inr ())) (calendarId sample_details)
        (externalId sample_details) = Inr snapshot_without
   \<and> \<not> nullish snapshot_without
   \<and> attendees_of snapshot_without = JArr [guest_attendee, room_attendee]
   \<and> list_all typed_attendee [guest_attendee, room_attendee]
   \<and> \<not> list_ex (has_email ascii_toLowerCase (NOTETAKER_EMAIL sample_env)) [guest_attendee, room_attendee]
   \<and> snd (POST (sample_world (Inr snapshot_without) (Inr ())) sample_env sample_request) =
       [Sleep 5000,
        EventsGet (JStr ''cara@magicalteams.com'') (JStr ''gcal123''),
        EventsPatch (JStr ''cara@magicalteams.com'') (JStr ''gcal123'') ''all''
          [guest_attendee, room_attendee,
           JObj [(''email'', JStr ''notetaker@magicalteams.com''),
                 (''responseStatus'', JStr ''needsAction'')]]]"
proof -
  have g: "events_get (sample_world (Inr snapshot_without) (Inr ())) (calendarId sample_details)
        (externalId sample_details) = Inr snapshot_without"
    by (simp add: sample_get)
  show ?thesis
    using notetaker_absent_one_patch [OF sample_reaches_fetch g sample_attendees(1,2,3,4)]
      sample_reaches_fetch [of "Inr snapshot_without" "Inr ()"] g sample_attendees(1,2,3,4)
    by (simp add: sample_constants sample_get(3))
qed

text \<open>
  The specification names the response status \<^verbatim>\<open>needs-action\<close>; the entry the handler
  appends carries \<^verbatim>\<open>needsAction\<close>.
\<close>

theorem response_status_literal_counterexample:
  "snd (POST (sample_world (Inr snapshot_without) (Inr ())) sample_env sample_request) =
     [Sleep 5000,
      EventsGet (JStr ''cara@magicalteams.com'') (JStr ''gcal123''),
      EventsPatch (JStr ''cara@magicalteams.com'') (JStr ''gcal123'') ''all''
        [guest_attendee, room_attendee,
         JObj [(''email'', JStr ''notetaker@magicalteams.com''),
               (''responseStatus'', JStr ''needsAction'')]]]
   \<and> JObj [(''email'', JStr ''notetaker@magicalteams.com''),
            (''responseStatus'', JStr ''needsAction'')]
       \<noteq> JObj [(''email'', JStr ''notetaker@magicalteams.com''),
               (''responseStatus'', JStr ''needs-action'')]"
  by (simp add: sample_effects_without)

text \<open>
  C4: an \<^verbatim>\<open>invitee.created\<close> notification that passes the signature step and whose
  extracted host email is not in the authorized list, whatever the letter case, is
  answered with status 200 and the body \<^verbatim>\<open>{message, processed: false, hostEmail}\<close>, and
  the run has no effect at all: no delay, no fetch, no patch.
\<close>

theorem unauthorized_host_no_calendar_call:
  assumes "JSON_parse w (req_text req) = Inr payload"
    and "POST_signature w e req = Inr None"
    and "get_prop payload ''event'' = Inr (JStr ''invitee.created'')"
    and "extractEventDetails (String_toLowerCase w) (read_prop payload ''payload'') = Inr d"
    and "\<not> ci_member (String_toLowerCase w) (hostEmail d) AUTHORIZED_HOSTS"
  shows "POST w e req =
           (Inr \<lparr>status = JNum 200,
             body = JObj [(''message'', JStr ''Host not in authorized list''),
                          (''processed'', JBool False),
                          (''hostEmail'', hostEmail d)]\<rparr>, [])
         \<and> filter is_calendar_call (snd (POST w e req)) = []"
proof -
  have "get_prop payload ''payload'' = Inr (read_prop payload ''payload'')"
    using assms(3) by (intro get_prop_prop get_prop_Inr_not_nullish)
  moreover have "hostEmail d \<notin> set (map JStr AUTHORIZED_HOSTS)"
    using assms(5) ci_member_authorized by blast
  ultimately show ?thesis
    using assms(1,2,3,4)
    by (simp add: POST_def POST_try_def POST_event_def bindE_Inr json_def)
qed

theorem unauthorized_host_no_calendar_call_witness:
  "JSON_parse (sample_world (Inr snapshot_without) (Inr ())) (req_text stranger_request)
     = Inr sample_event_stranger
   \<and> POST_signature (sample_world (Inr snapshot_without) (Inr ())) sample_env stranger_request
       = Inr None
   \<and> get_prop sample_event_stranger ''event'' = Inr (JStr ''invitee.created'')
   \<and> extractEventDetails ascii_toLowerCase (read_prop sample_event_stranger ''payload'') = Inr details_stranger
   \<and> \<not> ci_member ascii_toLowerCase (hostEmail details_stranger) AUTHORIZED_HOSTS
   \<and> POST (sample_world (Inr snapshot_without) (Inr ())) sample_env stranger_request =
       (Inr \<lparr>status = JNum 200,
         body = JObj [(''message'', JStr ''Host not in authorized list''),
                      (''processed'', JBool False),
                      (''hostEmail'', JStr ''stranger@example.org'')]\<rparr>, [])"
proof -
  let ?w = "sample_world (Inr snapshot_without) (Inr ())"
  have 1: "JSON_parse ?w (req_text stranger_request) = Inr sample_event_stranger"
    by (simp add: sample_world_def stranger_request_def sample_parse_def)
  have 2: "POST_signature ?w sample_env stranger_request = Inr None"
    by (rule stranger_signature)
  have 3: "get_prop sample_event_stranger ''event'' = Inr (JStr ''invitee.created'')"
    by (simp add: sample_event_stranger_def)
  have 4: "extractEventDetails (String_toLowerCase ?w)
             (read_prop sample_event_stranger ''payload'') = Inr details_stranger"
    by (simp add: sample_event_stranger_def read_prop_def extract_payload_stranger sample_get)
  have 5: "\<not> ci_member (String_toLowerCase ?w) (hostEmail details_stranger) AUTHORIZED_HOSTS"
    by (simp add: ci_member_def details_stranger_def AUTHORIZED_HOSTS_def sample_get
        ascii_toLowerCase_def ascii_lower_char_def)
  show ?thesis
    using unauthorized_host_no_calendar_call [OF 1 2 3 4 5] 1 2 3 4 5
    by (simp add: details_stranger_def sample_get(3))
qed

text \<open>
  C5, as the code has it: when no signing key is configured (the variable is unset, or
  empty once the runtime has trimmed it), the signature step of the handler lets every
  request through, whatever the body and the header, and the run goes on with the event
  type. On such a key \<open>verifyCalendlySignature\<close> itself returns \<^verbatim>\<open>false\<close>, whatever the
  payload and the header.
\<close>

theorem signature_skipped_without_key:
  assumes "\<not> signing_key_configured w e"
  shows "POST_signature w e req = Inr None
         \<and> POST_try w e req =
             (case JSON_parse w (req_text req) of
                Inl error \<Rightarrow> (Inl error, [])
              | Inr payload \<Rightarrow> POST_event w e payload)
         \<and> verifyCalendlySignature createHmac payload' hdr
              (map_option (String_trim w) (CALENDLY_WEBHOOK_SIGNING_KEY e)) = Inr False"
proof -
  have "POST_signature w e req = Inr None"
    using assms by (simp add: POST_signature_def signing_key_configured_def split: option.splits)
  moreover from this have "POST_try w e req =
             (case JSON_parse w (req_text req) of
                Inl error \<Rightarrow> (Inl error, [])
              | Inr payload \<Rightarrow> POST_event w e payload)"
    by (simp add: POST_try_def split: sum.splits)
  moreover have "verifyCalendlySignature createHmac payload' hdr
              (map_option (String_trim w) (CALENDLY_WEBHOOK_SIGNING_KEY e)) = Inr False"
    using assms
    by (cases "CALENDLY_WEBHOOK_SIGNING_KEY e"; cases hdr)
      (simp_all add: signing_key_configured_def verifyCalendlySignature_def)
  ultimately show ?thesis by blast
qed

theorem signature_skipped_without_key_witness:
  "\<not> signing_key_configured (sample_world (Inr snapshot_without) (Inr ())) env_without_key
   \<and> POST_signature (sample_world (Inr snapshot_without) (Inr ())) env_without_key
        \<lparr>req_text = ''booking notification'', req_signature = Some ''garbage''\<rparr> = Inr None
   \<and> \<not> signing_key_configured (sample_world (Inr snapshot_without) (Inr ())) env_blank_key
   \<and> POST_signature (sample_world (Inr snapshot_without) (Inr ())) env_blank_key
        \<lparr>req_text = ''booking notification'', req_signature = Some ''garbage''\<rparr> = Inr None
   \<and> verifyCalendlySignature sample_hmac ''{}'' (Some ''t=1700000000,v1=dead'')
        (map_option ascii_trim (Some ''  '')) = Inr False"
proof -
  let ?w = "sample_world (Inr snapshot_without) (Inr ())"
  have k: "\<not> signing_key_configured ?w env_without_key"
    by (simp add: signing_key_configured_def env_without_key_def)
  have b: "\<not> signing_key_configured ?w env_blank_key"
    by (simp add: signing_key_configured_def env_blank_key_def sample_world_def
        ascii_trim_def ascii_space_def)
  have t: "String_trim ?w = ascii_trim"
    "CALENDLY_WEBHOOK_SIGNING_KEY env_blank_key = Some ''  ''"
    by (simp_all add: sample_world_def env_blank_key_def)
  show ?thesis
    using signature_skipped_without_key [OF k]
      signature_skipped_without_key [OF b, of _ sample_hmac "''{}''"
        "Some ''t=1700000000,v1=dead''"] k b
    by (simp add: t)
qed

text \<open>
  Stated of the function itself, the property fails: without a key
  \<open>verifyCalendlySignature\<close> returns \<^verbatim>\<open>false\<close>, whatever the header.
\<close>

theorem verify_without_key_counterexample:
  "verifyCalendlySignature sample_hmac ''{}'' (Some ''t=1700000000,v1=dead'') None = Inr False
   \<and> verifyCalendlySignature sample_hmac ''{}'' (Some ''t=1700000000,v1=dead'') (Some [])
       = Inr False
   \<and> verifyCalendlySignature sample_hmac ''{}'' None None = Inr False"
  by (simp add: verifyCalendlySignature_def)




text \<open>
  C10: an attendee without an \<^verbatim>\<open>email\<close> property does not make the membership check
  raise and does not match: the check gives what it gives on the list without the entry.
  Every patch the handler issues for the fetched event has the entry unchanged at its
  position, after the same entries and before the same entries.
\<close>

theorem attendee_without_email_is_kept:
  assumes "lacks_email a"
  shows "attendee_matches lc target a = Inr False
         \<and> notetakerExists lc target (pre @ a # post) = notetakerExists lc target (pre @ post)
         \<and> (reaches_fetch w e req payload d
              \<and> events_get w (calendarId d) (externalId d) = Inr existingEvent
              \<and> attendees_of existingEvent = JArr (pre @ a # post)
              \<and> EventsPatch c i u l \<in> set (snd (POST w e req))
            \<longrightarrow> l ! length pre = a \<and> take (length (pre @ a # post)) l = pre @ a # post)"
proof (intro conjI impI)
  show m: "attendee_matches lc target a = Inr False"
    using assms by (rule lacks_email_no_match)
  show "notetakerExists lc target (pre @ a # post) = notetakerExists lc target (pre @ post)"
    using m by (rule notetakerExists_skip)
next
  assume h: "reaches_fetch w e req payload d
      \<and> events_get w (calendarId d) (externalId d) = Inr existingEvent
      \<and> attendees_of existingEvent = JArr (pre @ a # post)
      \<and> EventsPatch c i u l \<in> set (snd (POST w e req))"
  then have r: "reaches_fetch w e req payload d"
    and g: "events_get w (calendarId d) (externalId d) = Inr existingEvent"
    by simp_all
  have "snd (POST w e req) =
      [Sleep SYNC_DELAY_MS, EventsGet (calendarId d) (externalId d)]
        @ snd (POST_update w e d existingEvent)"
    using r g by (rule POST_effects_fetched)
  with h have p: "EventsPatch c i u l \<in> set (snd (POST_update w e d existingEvent))"
    by simp
  from h have at: "attendees_of existingEvent = JArr (pre @ a # post)"
    by blast
  have l: "l = updatedAttendees (NOTETAKER_EMAIL e) (pre @ a # post)"
    using p at by (rule POST_update_patches)
  show "l ! length pre = a"
    by (simp add: l updatedAttendees_def nth_append)
  show "take (length (pre @ a # post)) l = pre @ a # post"
    by (simp add: l updatedAttendees_def)
qed

theorem attendee_without_email_is_kept_witness:
  "lacks_email room_attendee
   \<and> attendee_matches ascii_toLowerCase ''notetaker@magicalteams.com'' room_attendee = Inr False
   \<and> reaches_fetch (sample_world (Inr snapshot_without) (Inr ())) sample_env sample_request
        sample_event sample_details
   \<and> events_get (sample_world (Inr snapshot_without) (Inr ())) (calendarId sample_details)
        (externalId sample_details) = Inr snapshot_without
   \<and> attendees_of snapshot_without = JArr ([guest_attendee] @ room_attendee # [])
   \<and> EventsPatch (JStr ''cara@magicalteams.com'') (JStr ''gcal123'') ''all''
        [guest_attendee, room_attendee,
         JObj [(''email'', JStr ''notetaker@magicalteams.com''),
               (''responseStatus'', JStr ''needsAction'')]]
       \<in> set (snd (POST (sample_world (Inr snapshot_without) (Inr ())) sample_env sample_request))
   \<and> [guest_attendee, room_attendee,
         JObj [(''email'', JStr ''notetaker@magicalteams.com''),
               (''responseStatus'', JStr ''needsAction'')]] ! length [guest_attendee]
       = room_attendee"
proof -
  have l: "lacks_email room_attendee"
    by (simp add: lacks_email_def room_attendee_def)
  show ?thesis
    using attendee_without_email_is_kept [OF l, of ascii_toLowerCase "''notetaker@magicalteams.com''"
        "[guest_attendee]" "[]" "sample_world (Inr snapshot_without) (Inr ())" sample_env
        sample_request sample_event sample_details snapshot_without
        "JStr ''cara@magicalteams.com''" "JStr ''gcal123''" "''all''"
        "[guest_attendee, room_attendee,
         JObj [(''email'', JStr ''notetaker@magicalteams.com''),
               (''responseStatus'', JStr ''needsAction'')]]"]
      l sample_reaches_fetch [of "Inr snapshot_without" "Inr ()"] sample_attendees(2)
    by (simp add: sample_get sample_effects_without)
qed

end
